theory Spec2Isabelle
  imports Main "HOL-Library.Sublist" "HOL-Library.AList"
begin

section \<open>Values and data of DuMeshTransformer.ts\<close>

text \<open>
  The arguments of a queued command are typed \<^verbatim>\<open>any[]\<close>. The values that matter
  here are the JSON-like ones; an array is a value of its own, which is what
  distinguishes passing an array from spreading its elements.
\<close>

datatype jsval =
    JUndefined
  | JNull
  | JBool bool
  | JNum int
  | JStr string
  | JArr "jsval list"
  | JObj "(string \<times> jsval) list"

text \<open>\<^verbatim>\<open>throw new Error(message)\<close>.\<close>

datatype exn = Error string

text \<open>
  A glTF material, as far as this file touches it: the display name (\<^verbatim>\<open>getName\<close>,
  \<^verbatim>\<open>setName\<close>) and the extras object (\<^verbatim>\<open>getExtras\<close>, \<^verbatim>\<open>setExtras\<close>). The
  name is a string, or \<^verbatim>\<open>undefined\<close> (here \<open>None\<close>) once \<^verbatim>\<open>setName\<close> was handed
  \<^verbatim>\<open>undefined\<close>. The extras hold arbitrary JSON: the cast \<^verbatim>\<open>as string\<close> in the source
  is not checked when the program runs. They are an association list in key order, so
  that the object spread of the constructor is the in-place-or-append update of a JS
  object.
\<close>

record Material =
  name :: "string option"
  extras :: "(string \<times> jsval) list"

record Document =
  materials :: "Material list"

text \<open>
  Modelled from the spec: \<^verbatim>\<open>MaterialDefinition\<close> and \<^verbatim>\<open>MaterialDefinitions\<close> are
  declared in \<^verbatim>\<open>./types\<close>, outside the file verified here. The spec gives a catalog
  entry an id, a title and arbitrary attributes, and the catalog an \<^verbatim>\<open>items\<close> map
  keyed by item id; the code reads \<^verbatim>\<open>.items[itemId]\<close> and \<^verbatim>\<open>.title\<close> only. The map
  holds the own properties of the \<^verbatim>\<open>items\<close> object.
\<close>

record MaterialDefinition =
  def_id :: string
  title :: string
  attributes :: "(string \<times> jsval) list"

record MaterialDefinitions =
  items :: "string \<rightharpoonup> MaterialDefinition"

text \<open>
  What \<^verbatim>\<open>items[itemId]\<close> can give when it is not \<^verbatim>\<open>undefined\<close>. The \<^verbatim>\<open>items\<close>
  object is a plain object (the bundled catalog is \<^verbatim>\<open>JSON.parse\<close> output), so a
  property read that finds no own property goes on to \<^verbatim>\<open>Object.prototype\<close>: the
  result is a definition of the catalog, or the member of \<^verbatim>\<open>Object.prototype\<close> of that
  name (a function, or for \<^verbatim>\<open>__proto__\<close> the prototype itself), which the declared
  type \<^verbatim>\<open>MaterialDefinition | null\<close> does not show.
\<close>

datatype game_material =
    Definition MaterialDefinition
  | Inherited string

record MaterialPair =
  material :: Material
  gameMaterial :: game_material


text \<open>
  A queued command: the function (a reference, of any type \<open>'f\<close>; what the function
  does is given separately, see \<open>bodies\<close> below) and its stored arguments.
\<close>

record 'f ProcessingQueueCommand =
  fn :: 'f
  args :: "jsval list"

text \<open>The fields of the class. The event emitter only publishes and is left out.\<close>

record 'f DuMeshTransformer =
  pendingCommands :: "'f ProcessingQueueCommand list"
  gameInstallationPath :: "string option"
  gltfDocument :: Document
  materialDefinitions :: MaterialDefinitions

text \<open>
  How a call that may throw ends: it returns, or it throws; either way the session
  is left in some state (what was mutated before a throw stays mutated).
\<close>

datatype 'f completion =
    Returned "'f DuMeshTransformer"
  | Threw exn "'f DuMeshTransformer"

fun state_of :: "'f completion \<Rightarrow> 'f DuMeshTransformer" where
  "state_of (Returned t) = t"
| "state_of (Threw e t) = t"

text \<open>
  The context object \<^verbatim>\<open>{ document: this.gltfDocument, transformer: this }\<close>. The
  reference \<^verbatim>\<open>this\<close> is the session as it is at the moment of the call.
\<close>

record 'f call_context =
  document :: Document
  transformer :: "'f DuMeshTransformer"

text \<open>One call \<^verbatim>\<open>fn.apply(this, [context, ...rest])\<close>, as the callee sees it.\<close>

record 'f invocation =
  callee :: 'f
  ctx :: "'f call_context"
  passed :: "jsval list"

text \<open>
  The bodies of the command functions are not part of this file (they are supplied by
  the caller, or live in \<^verbatim>\<open>./commands\<close>): a parameter that gives, for a call, how
  it completes. The awaited promise is taken to settle.
\<close>

type_synonym 'f bodies = "'f invocation \<Rightarrow> 'f completion"

text \<open>What the host provides: \<^verbatim>\<open>os.platform()\<close>, \<^verbatim>\<open>process.env.ProgramData\<close>,
  \<^verbatim>\<open>fs.existsSync\<close> and \<^verbatim>\<open>path.join\<close>.\<close>

record host =
  platform :: string
  ProgramData :: "string option"
  fileExists :: "string \<Rightarrow> bool"
  path_join :: "string list \<Rightarrow> string"

section \<open>JavaScript operators\<close>

text \<open>A string is truthy when it is not empty.\<close>

definition truthy :: "string \<Rightarrow> bool" where
  "truthy s = (s \<noteq> [])"

text \<open>\<^verbatim>\<open>a || b\<close> where \<^verbatim>\<open>a\<close> is a string or \<^verbatim>\<open>undefined\<close>.\<close>

definition js_or :: "string option \<Rightarrow> string \<Rightarrow> string" where
  "js_or a b = (case a of None \<Rightarrow> b | Some s \<Rightarrow> if truthy s then s else b)"

text \<open>
  Truthiness of any value: \<^verbatim>\<open>undefined\<close>, \<^verbatim>\<open>null\<close>, \<^verbatim>\<open>false\<close>, \<^verbatim>\<open>0\<close> and the
  empty string are falsy, everything else (every array and object too) is truthy.
\<close>

fun js_truthy :: "jsval \<Rightarrow> bool" where
  "js_truthy JUndefined = False"
| "js_truthy JNull = False"
| "js_truthy (JBool b) = b"
| "js_truthy (JNum n) = (n \<noteq> 0)"
| "js_truthy (JStr s) = truthy s"
| "js_truthy (JArr xs) = True"
| "js_truthy (JObj kvs) = True"

text \<open>\<^verbatim>\<open>a || b\<close> on any two values.\<close>

definition js_or_val :: "jsval \<Rightarrow> jsval \<Rightarrow> jsval" where
  "js_or_val a b = (if js_truthy a then a else b)"

text \<open>\<^verbatim>\<open>object[key]\<close> on an object given by its own properties, for a key that
  \<^verbatim>\<open>Object.prototype\<close> does not have: a missing key reads \<^verbatim>\<open>undefined\<close>.\<close>

definition js_get :: "(string \<times> jsval) list \<Rightarrow> string \<Rightarrow> jsval" where
  "js_get object key = (case map_of object key of None \<Rightarrow> JUndefined | Some v \<Rightarrow> v)"

text \<open>A name as a value: a string, or \<^verbatim>\<open>undefined\<close>.\<close>

definition js_of_name :: "string option \<Rightarrow> jsval" where
  "js_of_name n = (case n of None \<Rightarrow> JUndefined | Some s \<Rightarrow> JStr s)"

fun is_string :: "jsval \<Rightarrow> bool" where
  "is_string (JStr s) = True"
| "is_string v = False"

text \<open>
  The property key a value stands for: a string is its own key, any other value is
  converted by the language's \<^verbatim>\<open>ToString\<close>. That conversion (of numbers, arrays,
  objects and the rest) is a parameter of everything that looks an item id up.
\<close>

definition toPropertyKey :: "(jsval \<Rightarrow> string) \<Rightarrow> jsval \<Rightarrow> string" where
  "toPropertyKey ToString v = (case v of JStr s \<Rightarrow> s | _ \<Rightarrow> ToString v)"

text \<open>The names of the members of \<^verbatim>\<open>Object.prototype\<close>, which every plain object
  inherits; each is a function or an object, hence truthy.\<close>

definition object_prototype_keys :: "string list" where
  "object_prototype_keys =
     [''constructor'', ''__defineGetter__'', ''__defineSetter__'', ''hasOwnProperty'',
      ''__lookupGetter__'', ''__lookupSetter__'', ''isPrototypeOf'', ''propertyIsEnumerable'',
      ''toString'', ''valueOf'', ''__proto__'', ''toLocaleString'']"

text \<open>\<^verbatim>\<open>items[key]\<close>: the own property if there is one, else the inherited member
  of that name, else \<^verbatim>\<open>undefined\<close> (here \<open>None\<close>).\<close>

definition items_get :: "MaterialDefinitions \<Rightarrow> string \<Rightarrow> game_material option" where
  "items_get defs key =
     (case items defs key of
        Some d \<Rightarrow> Some (Definition d)
      | None \<Rightarrow> if key \<in> set object_prototype_keys then Some (Inherited key) else None)"

text \<open>\<^verbatim>\<open>itemMaterial.title\<close>: a definition has a title; a member of
  \<^verbatim>\<open>Object.prototype\<close> has no such property, and the read gives \<^verbatim>\<open>undefined\<close>.\<close>

definition title_of :: "game_material \<Rightarrow> string option" where
  "title_of g = (case g of Definition d \<Rightarrow> Some (title d) | Inherited key \<Rightarrow> None)"

section \<open>The command queue\<close>

text \<open>\<^verbatim>\<open>private queue(command, ...args)\<close>: the rest parameter is the list \<open>rest\<close>.\<close>

definition queue :: "'f \<Rightarrow> jsval list \<Rightarrow> 'f DuMeshTransformer \<Rightarrow> 'f DuMeshTransformer" where
  "queue command rest this =
     this\<lparr>pendingCommands := pendingCommands this @ [\<lparr>fn = command, args = rest\<rparr>]\<rparr>"

text \<open>
  \<^verbatim>\<open>public queueTransform(command, ...args) { return this.queue(command, args); }\<close>:
  the collected array \<^verbatim>\<open>args\<close> is handed on as ONE argument, not spread.
\<close>

definition queueTransform :: "'f \<Rightarrow> jsval list \<Rightarrow> 'f DuMeshTransformer \<Rightarrow> 'f DuMeshTransformer" where
  "queueTransform command rest this = queue command [JArr rest] this"

text \<open>\<^verbatim>\<open>withBaseColors() { return this.queue(BaseColorsTransform); }\<close>\<close>

definition withBaseColors :: "'f \<Rightarrow> 'f DuMeshTransformer \<Rightarrow> 'f DuMeshTransformer" where
  "withBaseColors BaseColorsTransform this = queue BaseColorsTransform [] this"

text \<open>The call made for one command of the snapshot, in the session state \<open>this\<close>.\<close>

definition call_of :: "'f ProcessingQueueCommand \<Rightarrow> 'f DuMeshTransformer \<Rightarrow> 'f invocation" where
  "call_of command this =
     \<lparr>callee = fn command,
      ctx = \<lparr>document = gltfDocument this, transformer = this\<rparr>,
      passed = args command\<rparr>"

text \<open>
  The \<^verbatim>\<open>for (const command of queue) await command.fn.apply(...)\<close> loop. It returns
  the calls made, in order, and how the loop ended; a throw ends it.
\<close>

fun run_commands ::
  "'f bodies \<Rightarrow> 'f ProcessingQueueCommand list \<Rightarrow> 'f DuMeshTransformer
     \<Rightarrow> 'f invocation list \<times> 'f completion" where
  "run_commands B [] this = ([], Returned this)"
| "run_commands B (command # rest) this =
     (case B (call_of command this) of
        Threw e this' \<Rightarrow> ([call_of command this], Threw e this')
      | Returned this' \<Rightarrow>
          (case run_commands B rest this' of
             (calls, r) \<Rightarrow> (call_of command this # calls, r)))"

text \<open>\<^verbatim>\<open>processQueue\<close>: copy the queue, clear it, run the copy.\<close>

definition processQueue ::
  "'f bodies \<Rightarrow> 'f DuMeshTransformer \<Rightarrow> 'f invocation list \<times> 'f completion" where
  "processQueue B this =
     (let queue = pendingCommands this
      in run_commands B queue (this\<lparr>pendingCommands := []\<rparr>))"

text \<open>
  \<^verbatim>\<open>saveToFile\<close>: drain the queue, then write. Everything after the drain (path
  handling, \<^verbatim>\<open>mkdir\<close>, the document writer) belongs to the I/O collaborator and is
  the parameter \<open>write\<close>.
\<close>

definition saveToFile ::
  "(string \<Rightarrow> bool \<Rightarrow> 'f DuMeshTransformer \<Rightarrow> 'f completion) \<Rightarrow> 'f bodies
     \<Rightarrow> string \<Rightarrow> bool \<Rightarrow> 'f DuMeshTransformer \<Rightarrow> 'f invocation list \<times> 'f completion" where
  "saveToFile write B file saveAsJson this =
     (case processQueue B this of
        (calls, Threw e this') \<Rightarrow> (calls, Threw e this')
      | (calls, Returned this') \<Rightarrow> (calls, write file saveAsJson this'))"

text \<open>
  What one call enqueued: the part of the queue after the call that was not there
  before it.
\<close>

definition enqueued_by :: "'f bodies \<Rightarrow> 'f invocation \<Rightarrow> 'f ProcessingQueueCommand list" where
  "enqueued_by B c =
     drop (length (pendingCommands (transformer (ctx c)))) (pendingCommands (state_of (B c)))"

text \<open>
  A body that touches the queue only by enqueuing (\<^verbatim>\<open>queueTransform\<close> and the
  \<^verbatim>\<open>with...\<close> methods are the only public way to change it, short of saving again):
  the queue it leaves starts with the queue it found.
\<close>

definition only_enqueues :: "'f bodies \<Rightarrow> 'f invocation \<Rightarrow> bool" where
  "only_enqueues B c =
     prefix (pendingCommands (transformer (ctx c))) (pendingCommands (state_of (B c)))"

section \<open>The material resolver\<close>

definition getName :: "Material \<Rightarrow> string option" where
  "getName m = name m"

definition getExtras :: "Material \<Rightarrow> (string \<times> jsval) list" where
  "getExtras m = extras m"

definition listMaterials :: "Document \<Rightarrow> Material list" where
  "listMaterials d = materials d"

definition getMaterialDefinitions :: "'f DuMeshTransformer \<Rightarrow> MaterialDefinitions" where
  "getMaterialDefinitions this = materialDefinitions this"

text \<open>\<^verbatim>\<open>(material.getExtras()['item_id'] as string) || material.getName()\<close>: the
  cast changes nothing when the program runs, so the result is whatever value the
  extra holds when that is truthy.\<close>

definition getGameItemIdFromGltfMaterial :: "Material \<Rightarrow> jsval" where
  "getGameItemIdFromGltfMaterial m =
     js_or_val (js_get (getExtras m) ''item_id'') (js_of_name (getName m))"

text \<open>\<^verbatim>\<open>this.getMaterialDefinitions().items[itemId] || null\<close>: what the read finds is
  an object or a function, hence truthy; \<^verbatim>\<open>undefined\<close> becomes \<^verbatim>\<open>null\<close>, here
  \<open>None\<close>. The parameter is declared a string and receives what
  \<^verbatim>\<open>getGameItemIdFromGltfMaterial\<close> returned.\<close>

definition getGameMaterialFromItemId ::
  "(jsval \<Rightarrow> string) \<Rightarrow> 'f DuMeshTransformer \<Rightarrow> jsval \<Rightarrow> game_material option" where
  "getGameMaterialFromItemId ToString this itemId =
     (case items_get (getMaterialDefinitions this) (toPropertyKey ToString itemId) of
        Some g \<Rightarrow> Some g
      | None \<Rightarrow> None)"

definition getGameMaterialFromGltfMaterial ::
  "(jsval \<Rightarrow> string) \<Rightarrow> 'f DuMeshTransformer \<Rightarrow> Material \<Rightarrow> game_material option" where
  "getGameMaterialFromGltfMaterial ToString this m =
     getGameMaterialFromItemId ToString this (getGameItemIdFromGltfMaterial m)"

text \<open>\<^verbatim>\<open>listMaterials().map(...).filter((pair) => !!pair) as MaterialPair[]\<close>\<close>

definition getGltfMaterialsWithGameMaterials ::
  "(jsval \<Rightarrow> string) \<Rightarrow> 'f DuMeshTransformer \<Rightarrow> MaterialPair list" where
  "getGltfMaterialsWithGameMaterials ToString this =
     map the
       (filter (\<lambda>pair. pair \<noteq> None)
         (map (\<lambda>m.
                 case getGameMaterialFromGltfMaterial ToString this m of
                   Some g \<Rightarrow> Some \<lparr>material = m, gameMaterial = g\<rparr>
                 | None \<Rightarrow> None)
              (listMaterials (gltfDocument this))))"

section \<open>The installation directory\<close>

definition isGameInstallationDirectorySet :: "'f DuMeshTransformer \<Rightarrow> bool" where
  "isGameInstallationDirectorySet this =
     (case gameInstallationPath this of None \<Rightarrow> False | Some p \<Rightarrow> truthy p)"

definition setGameInstallationDirectory ::
  "host \<Rightarrow> string \<Rightarrow> 'f DuMeshTransformer \<Rightarrow> 'f completion" where
  "setGameInstallationDirectory h directory this =
     (if \<not> fileExists h (path_join h [directory, ''Game'', ''data''])
      then Threw (Error (''Invalid game directory: '' @ directory)) this
      else Returned (this\<lparr>gameInstallationPath := Some directory\<rparr>))"

text \<open>\<^verbatim>\<open>this.gameInstallationPath!\<close> is read only when the directory is set.\<close>

definition getDataDirectory :: "host \<Rightarrow> 'f DuMeshTransformer \<Rightarrow> string option" where
  "getDataDirectory h this =
     (if isGameInstallationDirectorySet this
      then Some (path_join h [the (gameInstallationPath this), ''Game'', ''data''])
      else None)"

section \<open>The constructor\<close>

text \<open>
  The body of the \<^verbatim>\<open>forEach\<close> over the materials: it mutates one material
  (\<^verbatim>\<open>setName\<close> with the title read off the lookup's result, then \<^verbatim>\<open>setExtras\<close> with
  the spread of the old extras and \<^verbatim>\<open>item_id\<close>). The result is read only where the
  lookup found one.
\<close>

definition preprocessMaterial ::
  "(jsval \<Rightarrow> string) \<Rightarrow> 'f DuMeshTransformer \<Rightarrow> Material \<Rightarrow> Material" where
  "preprocessMaterial ToString this m =
     (let itemId = getGameItemIdFromGltfMaterial m;
          itemMaterial =
            (if js_truthy itemId then getGameMaterialFromItemId ToString this itemId else None)
      in if js_truthy itemId \<and> itemMaterial \<noteq> None
         then m\<lparr>name := title_of (the itemMaterial),
                extras := AList.update ''item_id'' itemId (getExtras m)\<rparr>
         else m)"

text \<open>The literal \<^verbatim>\<open>'C:\\ProgramData'\<close>: one backslash.\<close>

definition defaultProgramData :: string where
  "defaultProgramData = ''C:'' @ [CHR 0x5C] @ ''ProgramData''"

text \<open>
  The private constructor: on \<^verbatim>\<open>win32\<close>, the probe of the default installation
  (\<^verbatim>\<open>env.ProgramData || 'C:\\ProgramData'\<close>, joined with \<^verbatim>\<open>Dual Universe\<close>), set
  through \<^verbatim>\<open>setGameInstallationDirectory\<close> when it and its \<^verbatim>\<open>Game/data\<close> exist;
  then the \<^verbatim>\<open>forEach\<close> over the document's materials. A throw of the setter would
  leave the constructor.
\<close>

definition DuMeshTransformer_new ::
  "(jsval \<Rightarrow> string) \<Rightarrow> host \<Rightarrow> Document \<Rightarrow> MaterialDefinitions \<Rightarrow> 'f completion" where
  "DuMeshTransformer_new ToString h doc defs =
     (let this = \<lparr>pendingCommands = [], gameInstallationPath = None,
                  gltfDocument = doc, materialDefinitions = defs\<rparr>;
          defaultGameInstall =
            path_join h [js_or (ProgramData h) defaultProgramData, ''Dual Universe''];
          probed =
            (if platform h = ''win32''
                \<and> fileExists h defaultGameInstall
                \<and> fileExists h (path_join h [defaultGameInstall, ''Game'', ''data''])
             then setGameInstallationDirectory h defaultGameInstall this
             else Returned this)
      in case probed of
           Threw e this' \<Rightarrow> Threw e this'
         | Returned this' \<Rightarrow>
             Returned (this'\<lparr>gltfDocument :=
               (gltfDocument this')\<lparr>materials :=
                 map (preprocessMaterial ToString this') (listMaterials (gltfDocument this'))\<rparr>\<rparr>))"

text \<open>
  The \<^verbatim>\<open>forEach\<close> body reads the session only for its catalog; this is the same
  step, given the catalog alone.
\<close>

definition preprocess_with ::
  "(jsval \<Rightarrow> string) \<Rightarrow> MaterialDefinitions \<Rightarrow> Material \<Rightarrow> Material" where
  "preprocess_with ToString defs =
     preprocessMaterial ToString (\<lparr>pendingCommands = [], gameInstallationPath = None,
       gltfDocument = \<lparr>materials = []\<rparr>, materialDefinitions = defs\<rparr> :: unit DuMeshTransformer)"

section \<open>Sample inputs\<close>

fun sample_join :: "string list \<Rightarrow> string" where
  "sample_join [] = []"
| "sample_join [p] = p"
| "sample_join (p # q # ps) = p @ ''/'' @ sample_join (q # ps)"

text \<open>A sample conversion to a string, right on the primitive values other than
  numbers; the samples below convert no number, array or object.\<close>

fun sample_ToString :: "jsval \<Rightarrow> string" where
  "sample_ToString JUndefined = ''undefined''"
| "sample_ToString JNull = ''null''"
| "sample_ToString (JBool b) = (if b then ''true'' else ''false'')"
| "sample_ToString (JStr s) = s"
| "sample_ToString v = ''[object Object]''"

definition sample_host :: host where
  "sample_host =
     \<lparr>platform = ''linux'', ProgramData = None,
      fileExists = (\<lambda>p. p = ''/opt/du/Game/data''), path_join = sample_join\<rparr>"

definition steel_plate :: MaterialDefinition where
  "steel_plate = \<lparr>def_id = ''1001'', title = ''Steel Plate'', attributes = []\<rparr>"

definition sample_catalog :: MaterialDefinitions where
  "sample_catalog = \<lparr>items = [''1001'' \<mapsto> steel_plate]\<rparr>"

definition blank_key_catalog :: MaterialDefinitions where
  "blank_key_catalog = \<lparr>items = [[] \<mapsto> steel_plate]\<rparr>"

definition stamped_material :: Material where
  "stamped_material =
     \<lparr>name = Some ''mat_a'',
      extras = [(''item_id'', JStr ''1001''), (''note'', JStr ''keep'')]\<rparr>"

definition unknown_material :: Material where
  "unknown_material = \<lparr>name = Some ''Unknown'', extras = []\<rparr>"

definition nameless_material :: Material where
  "nameless_material = \<lparr>name = Some [], extras = []\<rparr>"

text \<open>A material whose \<^verbatim>\<open>item_id\<close> extra is the number 1001, one where it is the
  number 0, one whose name was set to \<^verbatim>\<open>undefined\<close>, and one named after a member of
  \<^verbatim>\<open>Object.prototype\<close>.\<close>

definition numbered_material :: Material where
  "numbered_material = \<lparr>name = Some ''mat_b'', extras = [(''item_id'', JNum 1001)]\<rparr>"

definition zero_material :: Material where
  "zero_material = \<lparr>name = Some ''mat_c'', extras = [(''item_id'', JNum 0)]\<rparr>"

definition unnamed_material :: Material where
  "unnamed_material = \<lparr>name = None, extras = []\<rparr>"

definition constructor_material :: Material where
  "constructor_material = \<lparr>name = Some ''constructor'', extras = []\<rparr>"

definition sample_document :: Document where
  "sample_document = \<lparr>materials = [stamped_material, unknown_material]\<rparr>"

definition nameless_document :: Document where
  "nameless_document = \<lparr>materials = [nameless_material]\<rparr>"

definition sample_session :: "nat DuMeshTransformer" where
  "sample_session =
     \<lparr>pendingCommands = [], gameInstallationPath = None,
      gltfDocument = sample_document, materialDefinitions = sample_catalog\<rparr>"

definition constructor_session :: "nat DuMeshTransformer" where
  "constructor_session =
     \<lparr>pendingCommands = [], gameInstallationPath = None,
      gltfDocument = \<lparr>materials = [stamped_material, constructor_material]\<rparr>,
      materialDefinitions = sample_catalog\<rparr>"

text \<open>
  Sample command functions, by number: 0 enqueues command 7 and returns, 1 enqueues
  command 8 and then throws, every other one returns at once.
\<close>

definition sample_bodies :: "nat bodies" where
  "sample_bodies c =
     (if callee c = 0 then Returned (queue 7 [] (transformer (ctx c)))
      else if callee c = 1 then Threw (Error ''boom'') (queue 8 [] (transformer (ctx c)))
      else Returned (transformer (ctx c)))"

section \<open>The queue: what a drain calls, and what it leaves queued\<close>

lemma array_is_not_its_elements: "[JArr rest] \<noteq> rest"
proof
  assume "[JArr rest] = rest"
  then have "size_list size [JArr rest] = size_list size rest" by simp
  then show False by simp
qed

lemma run_commands_Returned:
  "run_commands B q s = (calls, Returned s') \<Longrightarrow>
     map callee calls = map fn q \<and> map passed calls = map args q"
proof (induction q arbitrary: s calls)
  case Nil
  then show ?case by simp
next
  case (Cons c q)
  then show ?case
    by (auto simp: call_of_def split: completion.splits prod.splits)
qed

lemma run_commands_first:
  "hd (fst (run_commands B (c # q) s)) = call_of c s"
  by (simp split: completion.splits prod.splits)

lemma only_enqueues_append:
  "only_enqueues B c \<Longrightarrow>
     pendingCommands (state_of (B c)) = pendingCommands (transformer (ctx c)) @ enqueued_by B c"
  by (auto simp: only_enqueues_def enqueued_by_def prefix_def)

lemma run_commands_queue:
  "run_commands B q s = (calls, r) \<Longrightarrow> \<forall>c\<in>set calls. only_enqueues B c \<Longrightarrow>
     pendingCommands (state_of r) = pendingCommands s @ concat (map (enqueued_by B) calls)"
proof (induction q arbitrary: s calls r)
  case Nil
  then show ?case by auto
next
  case (Cons c q)
  show ?case
  proof (cases "B (call_of c s)")
    case (Threw e t)
    with Cons.prems have calls: "calls = [call_of c s]" and r: "r = Threw e t"
      by auto
    from Cons.prems(2) calls have "only_enqueues B (call_of c s)" by simp
    from only_enqueues_append [OF this] Threw calls r show ?thesis
      by (simp add: call_of_def)
  next
    case (Returned t)
    obtain calls' r' where rec: "run_commands B q t = (calls', r')"
      by (cases "run_commands B q t")
    with Cons.prems Returned have calls: "calls = call_of c s # calls'" and r: "r = r'"
      by auto
    from Cons.prems(2) calls have first: "only_enqueues B (call_of c s)"
      and others: "\<forall>c\<in>set calls'. only_enqueues B c" by simp_all
    from Cons.IH [OF rec others] have "pendingCommands (state_of r') =
       pendingCommands t @ concat (map (enqueued_by B) calls')" .
    moreover from only_enqueues_append [OF first] Returned
    have "pendingCommands t = pendingCommands s @ enqueued_by B (call_of c s)"
      by (simp add: call_of_def)
    ultimately show ?thesis using calls r by simp
  qed
qed

lemma run_commands_Threw:
  "run_commands B q s = (calls, Threw e s') \<Longrightarrow>
     \<exists>ran failing skipped. q = ran @ failing # skipped
        \<and> map callee calls = map fn (ran @ [failing])
        \<and> map passed calls = map args (ran @ [failing])
        \<and> B (last calls) = Threw e s'"
proof (induction q arbitrary: s calls)
  case Nil
  then show ?case by simp
next
  case (Cons c q)
  show ?case
  proof (cases "B (call_of c s)")
    case (Threw e1 t)
    with Cons.prems have "calls = [call_of c s]" "e1 = e" "t = s'" by auto
    with Threw have "c # q = [] @ c # q \<and> map callee calls = map fn ([] @ [c])
        \<and> map passed calls = map args ([] @ [c]) \<and> B (last calls) = Threw e s'"
      by (simp add: call_of_def)
    then show ?thesis by blast
  next
    case (Returned t)
    obtain calls' r' where rec: "run_commands B q t = (calls', r')"
      by (cases "run_commands B q t")
    with Cons.prems Returned have calls: "calls = call_of c s # calls'" and r: "r' = Threw e s'"
      by auto
    from Cons.IH [OF rec [unfolded r]] obtain d f rest where
      q: "q = d @ f # rest" and a: "map callee calls' = map fn (d @ [f])"
      and b: "map passed calls' = map args (d @ [f])"
      and t: "B (last calls') = Threw e s'"
      by blast
    from a have ne: "calls' \<noteq> []" by auto
    have "c # q = (c # d) @ f # rest \<and> map callee calls = map fn ((c # d) @ [f])
        \<and> map passed calls = map args ((c # d) @ [f]) \<and> B (last calls) = Threw e s'"
      using q a b t ne calls by (simp add: call_of_def)
    then show ?thesis by blast
  qed
qed

lemma sample_bodies_only_enqueue: "only_enqueues sample_bodies c"
  by (simp add: only_enqueues_def sample_bodies_def queue_def)

lemma queueTransform_never_spreads:
  "fst (processQueue B (queueTransform f rest (this\<lparr>pendingCommands := []\<rparr>))) =
     [\<lparr>callee = f,
       ctx = \<lparr>document = gltfDocument this, transformer = this\<lparr>pendingCommands := []\<rparr>\<rparr>,
       passed = [JArr rest]\<rparr>]
   \<and> [JArr rest] \<noteq> rest"
  by (simp add: processQueue_def queueTransform_def queue_def call_of_def array_is_not_its_elements
      split: completion.splits)

text \<open>
  C1. A command enqueued with \<^verbatim>\<open>queueTransform(fn, 1, 2)\<close> should be called, when
  the queue is drained, with the context followed by the arguments 1 and 2. This
  evaluates the drain there: the callee gets the context followed by ONE argument,
  the array \<^verbatim>\<open>[1, 2]\<close>. Enqueued through \<^verbatim>\<open>queue\<close> itself (as \<^verbatim>\<open>withBaseColors\<close>
  does), the same arguments do arrive as 1 and 2.
\<close>

theorem queueTransform_passes_one_array:
  "map passed (fst (processQueue sample_bodies
       (queueTransform 2 [JNum 1, JNum 2] sample_session))) = [[JArr [JNum 1, JNum 2]]]
   \<and> map passed (fst (processQueue sample_bodies
       (queue 2 [JNum 1, JNum 2] sample_session))) = [[JNum 1, JNum 2]]
   \<and> map callee (fst (processQueue sample_bodies
       (queueTransform 2 [JNum 1, JNum 2] sample_session))) = [2]"
  by (simp add: processQueue_def queueTransform_def queue_def call_of_def sample_session_def
      sample_bodies_def)

text \<open>
  C2. When a drain returns, the calls it made are the commands that were queued when it
  began, in queue order and one call per command (same functions, same stored
  arguments). The first call already sees an empty queue (and the session's
  document). If the calls touched the queue only by enqueuing, the queue after the
  drain is exactly what they enqueued, in order: none of it ran in this drain, all of
  it waits for the next.
\<close>

theorem processQueue_fifo:
  assumes "processQueue B this = (calls, Returned this')"
  shows "map callee calls = map fn (pendingCommands this)
     \<and> map passed calls = map args (pendingCommands this)
     \<and> (calls \<noteq> [] \<longrightarrow> pendingCommands (transformer (ctx (hd calls))) = []
           \<and> document (ctx (hd calls)) = gltfDocument this)
     \<and> ((\<forall>c\<in>set calls. only_enqueues B c) \<longrightarrow>
           pendingCommands this' = concat (map (enqueued_by B) calls))"
proof -
  let ?s = "this\<lparr>pendingCommands := []\<rparr>"
  from assms have run: "run_commands B (pendingCommands this) ?s = (calls, Returned this')"
    by (simp add: processQueue_def)
  have order: "map callee calls = map fn (pendingCommands this)
     \<and> map passed calls = map args (pendingCommands this)"
    using run_commands_Returned [OF run] .
  have first: "calls \<noteq> [] \<longrightarrow> pendingCommands (transformer (ctx (hd calls))) = []
           \<and> document (ctx (hd calls)) = gltfDocument this"
  proof
    assume "calls \<noteq> []"
    with order obtain c q where q: "pendingCommands this = c # q"
      by (cases "pendingCommands this") auto
    from run_commands_first [of B c q ?s] run q have "hd calls = call_of c ?s" by simp
    then show "pendingCommands (transformer (ctx (hd calls))) = []
           \<and> document (ctx (hd calls)) = gltfDocument this"
      by (simp add: call_of_def)
  qed
  have later: "(\<forall>c\<in>set calls. only_enqueues B c) \<longrightarrow>
           pendingCommands this' = concat (map (enqueued_by B) calls)"
    using run_commands_queue [OF run] by simp
  from order first later show ?thesis by blast
qed

theorem processQueue_fifo_witness:
  "processQueue sample_bodies
      (sample_session\<lparr>pendingCommands := [\<lparr>fn = 0, args = [JNum 1]\<rparr>, \<lparr>fn = 2, args = []\<rparr>]\<rparr>)
     = ([call_of \<lparr>fn = 0, args = [JNum 1]\<rparr> sample_session,
         call_of \<lparr>fn = 2, args = []\<rparr> (queue 7 [] sample_session)],
        Returned (queue 7 [] sample_session))
   \<and> map callee [call_of \<lparr>fn = 0, args = [JNum 1]\<rparr> sample_session,
         call_of \<lparr>fn = 2, args = []\<rparr> (queue 7 [] sample_session)] = [0, 2]
   \<and> pendingCommands (transformer (ctx (call_of \<lparr>fn = 0, args = [JNum 1]\<rparr> sample_session))) = []
   \<and> pendingCommands (queue 7 [] sample_session) =
       concat (map (enqueued_by sample_bodies)
         [call_of \<lparr>fn = 0, args = [JNum 1]\<rparr> sample_session,
          call_of \<lparr>fn = 2, args = []\<rparr> (queue 7 [] sample_session)])
   \<and> pendingCommands (queue 7 [] sample_session) = [\<lparr>fn = 7, args = []\<rparr>]"
proof -
  have run: "processQueue sample_bodies
      (sample_session\<lparr>pendingCommands := [\<lparr>fn = 0, args = [JNum 1]\<rparr>, \<lparr>fn = 2, args = []\<rparr>]\<rparr>)
     = ([call_of \<lparr>fn = 0, args = [JNum 1]\<rparr> sample_session,
         call_of \<lparr>fn = 2, args = []\<rparr> (queue 7 [] sample_session)],
        Returned (queue 7 [] sample_session))"
    by (simp add: processQueue_def sample_bodies_def call_of_def sample_session_def queue_def)
  have last: "pendingCommands (queue 7 [] sample_session) = [\<lparr>fn = 7, args = []\<rparr>]"
    by (simp add: queue_def sample_session_def)
  from processQueue_fifo [OF run] sample_bodies_only_enqueue run last
  show ?thesis by simp
qed

lemma run_commands_append:
  "run_commands B earlier s = (calls, Returned s1) \<Longrightarrow>
     run_commands B (earlier @ rest) s =
       (case run_commands B rest s1 of (calls', r) \<Rightarrow> (calls @ calls', r))"
proof (induction earlier arbitrary: s calls)
  case Nil
  then show ?case by (simp split: prod.splits)
next
  case (Cons c earlier)
  show ?case
  proof (cases "B (call_of c s)")
    case (Threw e t)
    with Cons.prems show ?thesis by simp
  next
    case (Returned t)
    obtain calls0 r0 where rec: "run_commands B earlier t = (calls0, r0)"
      by (cases "run_commands B earlier t")
    with Cons.prems Returned have calls: "calls = call_of c s # calls0" and r0: "r0 = Returned s1"
      by auto
    from Cons.IH [OF rec [unfolded r0]] Returned calls show ?thesis
      by (simp split: prod.splits)
  qed
qed

lemma processQueue_Threw_split:
  assumes "processQueue B this = (calls, Threw e this')"
  shows "\<exists>earlier failing skipped. pendingCommands this = earlier @ failing # skipped
        \<and> map callee calls = map fn (earlier @ [failing])
        \<and> map passed calls = map args (earlier @ [failing])
        \<and> B (last calls) = Threw e this'"
  using assms run_commands_Threw [of B "pendingCommands this" "this\<lparr>pendingCommands := []\<rparr>"]
  by (simp add: processQueue_def)

text \<open>
  C3. Let the snapshot be the commands \<open>earlier\<close>, then \<open>failing\<close>, then \<open>skipped\<close>, where
  the commands of \<open>earlier\<close>, drained in order, all return, and the call of \<open>failing\<close>
  that follows them throws \<open>e\<close>. Then the drain ends with that throw of \<open>e\<close>, and
  so does \<^verbatim>\<open>saveToFile\<close>, which writes nothing; the calls made are those of \<open>earlier\<close>
  and the one of \<open>failing\<close>, so no command of \<open>skipped\<close> is called. If the calls
  touched the queue only by enqueuing, the queue after the drain is exactly what they
  enqueued: neither the failing command nor the skipped ones are kept.
\<close>

theorem processQueue_failure:
  assumes "pendingCommands this = earlier @ failing # skipped"
    and "processQueue B (this\<lparr>pendingCommands := earlier\<rparr>) = (calls, Returned s1)"
    and "B (call_of failing s1) = Threw e this'"
  shows "processQueue B this = (calls @ [call_of failing s1], Threw e this')
     \<and> saveToFile write B file saveAsJson this = (calls @ [call_of failing s1], Threw e this')
     \<and> map callee (calls @ [call_of failing s1]) = map fn (earlier @ [failing])
     \<and> map passed (calls @ [call_of failing s1]) = map args (earlier @ [failing])
     \<and> ((\<forall>c\<in>set (calls @ [call_of failing s1]). only_enqueues B c) \<longrightarrow>
           pendingCommands this' = concat (map (enqueued_by B) (calls @ [call_of failing s1])))"
proof -
  let ?s = "this\<lparr>pendingCommands := []\<rparr>"
  let ?calls = "calls @ [call_of failing s1]"
  from assms(2) have before: "run_commands B earlier ?s = (calls, Returned s1)"
    by (simp add: processQueue_def)
  from run_commands_append [OF before, of "failing # skipped"] assms(3)
  have run: "run_commands B (pendingCommands this) ?s = (?calls, Threw e this')"
    by (simp add: assms(1))
  then have drain: "processQueue B this = (?calls, Threw e this')"
    by (simp add: processQueue_def)
  then have save: "saveToFile write B file saveAsJson this = (?calls, Threw e this')"
    by (simp add: saveToFile_def)
  from run_commands_Returned [OF before]
  have order: "map callee ?calls = map fn (earlier @ [failing])
     \<and> map passed ?calls = map args (earlier @ [failing])"
    by (simp add: call_of_def)
  have kept: "(\<forall>c\<in>set ?calls. only_enqueues B c) \<longrightarrow>
           pendingCommands this' = concat (map (enqueued_by B) ?calls)"
    using run_commands_queue [OF run] by simp
  from drain save order kept show ?thesis by blast
qed

theorem processQueue_failure_witness:
  "processQueue sample_bodies
      (sample_session\<lparr>pendingCommands :=
         [\<lparr>fn = 0, args = []\<rparr>, \<lparr>fn = 1, args = []\<rparr>, \<lparr>fn = 2, args = []\<rparr>]\<rparr>)
     = ([call_of \<lparr>fn = 0, args = []\<rparr> sample_session,
         call_of \<lparr>fn = 1, args = []\<rparr> (queue 7 [] sample_session)],
        Threw (Error ''boom'') (queue 8 [] (queue 7 [] sample_session)))
   \<and> saveToFile (\<lambda>file saveAsJson. Returned) sample_bodies ''out.glb'' False
      (sample_session\<lparr>pendingCommands :=
         [\<lparr>fn = 0, args = []\<rparr>, \<lparr>fn = 1, args = []\<rparr>, \<lparr>fn = 2, args = []\<rparr>]\<rparr>)
     = ([call_of \<lparr>fn = 0, args = []\<rparr> sample_session,
         call_of \<lparr>fn = 1, args = []\<rparr> (queue 7 [] sample_session)],
        Threw (Error ''boom'') (queue 8 [] (queue 7 [] sample_session)))
   \<and> pendingCommands (queue 8 [] (queue 7 [] sample_session)) =
       concat (map (enqueued_by sample_bodies)
         [call_of \<lparr>fn = 0, args = []\<rparr> sample_session,
          call_of \<lparr>fn = 1, args = []\<rparr> (queue 7 [] sample_session)])
   \<and> pendingCommands (queue 8 [] (queue 7 [] sample_session)) =
       [\<lparr>fn = 7, args = []\<rparr>, \<lparr>fn = 8, args = []\<rparr>]"
proof -
  let ?session = "sample_session\<lparr>pendingCommands :=
         [\<lparr>fn = 0, args = []\<rparr>, \<lparr>fn = 1, args = []\<rparr>, \<lparr>fn = 2, args = []\<rparr>]\<rparr>"
  have snapshot: "pendingCommands ?session =
      [\<lparr>fn = 0, args = []\<rparr>] @ \<lparr>fn = 1, args = []\<rparr> # [\<lparr>fn = 2, args = []\<rparr>]"
    by simp
  have before: "processQueue sample_bodies (?session\<lparr>pendingCommands := [\<lparr>fn = 0, args = []\<rparr>]\<rparr>)
     = ([call_of \<lparr>fn = 0, args = []\<rparr> sample_session], Returned (queue 7 [] sample_session))"
    by (simp add: processQueue_def sample_bodies_def call_of_def sample_session_def queue_def)
  have throws: "sample_bodies (call_of \<lparr>fn = 1, args = []\<rparr> (queue 7 [] sample_session))
     = Threw (Error ''boom'') (queue 8 [] (queue 7 [] sample_session))"
    by (simp add: sample_bodies_def call_of_def)
  have last: "pendingCommands (queue 8 [] (queue 7 [] sample_session)) =
       [\<lparr>fn = 7, args = []\<rparr>, \<lparr>fn = 8, args = []\<rparr>]"
    by (simp add: queue_def sample_session_def)
  from processQueue_failure [OF snapshot before throws,
      of "\<lambda>file saveAsJson. Returned" "''out.glb''" False]
    sample_bodies_only_enqueue last
  show ?thesis by simp
qed

section \<open>The material resolver\<close>

text \<open>
  C5, as stated, fails: the function does not always return a string, nor always the
  \<^verbatim>\<open>item_id\<close> extra that is present. The cast on the extra is not checked, so an
  extra holding the number 1001 is returned as that number, and one holding the number
  0 is passed over for the display name; and a material whose name was set to
  \<^verbatim>\<open>undefined\<close> and that has no \<^verbatim>\<open>item_id\<close> gives \<^verbatim>\<open>undefined\<close>.
\<close>

theorem getGameItemIdFromGltfMaterial_not_string_counterexample:
  "getGameItemIdFromGltfMaterial numbered_material = JNum 1001
   \<and> \<not> is_string (getGameItemIdFromGltfMaterial numbered_material)
   \<and> map_of (getExtras zero_material) ''item_id'' = Some (JNum 0)
   \<and> getGameItemIdFromGltfMaterial zero_material = JStr ''mat_c''
   \<and> getGameItemIdFromGltfMaterial unnamed_material = JUndefined
   \<and> \<not> is_string (getGameItemIdFromGltfMaterial unnamed_material)"
  by (simp add: getGameItemIdFromGltfMaterial_def js_or_val_def js_get_def js_of_name_def
      getExtras_def getName_def numbered_material_def zero_material_def unnamed_material_def)

text \<open>
  C5, amended. The function has no failing branch. It returns the \<^verbatim>\<open>item_id\<close> extra
  when that is present and truthy, and the display name otherwise. For a material
  whose \<^verbatim>\<open>item_id\<close> extra is absent or a string and whose display name is a string,
  the result is a string: the \<^verbatim>\<open>item_id\<close> when it is present and not empty, the
  display name otherwise, and the empty string when the material has neither.
\<close>

theorem getGameItemIdFromGltfMaterial_total:
  "(js_truthy (js_get (getExtras m) ''item_id'') \<longrightarrow>
        getGameItemIdFromGltfMaterial m = js_get (getExtras m) ''item_id'')
   \<and> (\<not> js_truthy (js_get (getExtras m) ''item_id'') \<longrightarrow>
        getGameItemIdFromGltfMaterial m = js_of_name (getName m))
   \<and> (\<forall>s. map_of (getExtras m) ''item_id'' = Some (JStr s) \<and> s \<noteq> [] \<longrightarrow>
        getGameItemIdFromGltfMaterial m = JStr s)
   \<and> (\<forall>n. (map_of (getExtras m) ''item_id'' = None
            \<or> map_of (getExtras m) ''item_id'' = Some (JStr []))
          \<and> getName m = Some n \<longrightarrow>
        getGameItemIdFromGltfMaterial m = JStr n)
   \<and> (\<forall>n. (map_of (getExtras m) ''item_id'' = None
            \<or> (\<exists>s. map_of (getExtras m) ''item_id'' = Some (JStr s)))
          \<and> getName m = Some n \<longrightarrow>
        is_string (getGameItemIdFromGltfMaterial m))
   \<and> ((map_of (getExtras m) ''item_id'' = None
          \<or> map_of (getExtras m) ''item_id'' = Some (JStr []))
        \<and> getName m = Some [] \<longrightarrow>
        getGameItemIdFromGltfMaterial m = JStr [])"
  by (auto simp: getGameItemIdFromGltfMaterial_def js_or_val_def js_get_def js_of_name_def
      truthy_def)

theorem getGameItemIdFromGltfMaterial_total_witness:
  "getGameItemIdFromGltfMaterial stamped_material = JStr ''1001''
   \<and> getGameItemIdFromGltfMaterial unknown_material = JStr ''Unknown''
   \<and> getGameItemIdFromGltfMaterial (unknown_material\<lparr>extras := [(''item_id'', JStr [])]\<rparr>)
       = JStr ''Unknown''
   \<and> is_string (getGameItemIdFromGltfMaterial unknown_material)
   \<and> getGameItemIdFromGltfMaterial nameless_material = JStr []"
  using getGameItemIdFromGltfMaterial_total [of stamped_material]
    getGameItemIdFromGltfMaterial_total [of unknown_material]
    getGameItemIdFromGltfMaterial_total [of "unknown_material\<lparr>extras := [(''item_id'', JStr [])]\<rparr>"]
    getGameItemIdFromGltfMaterial_total [of nameless_material]
  by (simp add: getExtras_def getName_def stamped_material_def unknown_material_def
      nameless_material_def)

text \<open>
  What the lookup does give: for a string id that is a key of the catalog, its
  definition; for one that is neither a key of the catalog nor the name of a member of
  \<^verbatim>\<open>Object.prototype\<close>, the not-found value; for the name of such a member that the
  catalog does not have, that member.
\<close>

lemma getGameMaterialFromItemId_cases:
  "(\<forall>d. items (getMaterialDefinitions this) itemId = Some d \<longrightarrow>
       getGameMaterialFromItemId ToString this (JStr itemId) = Some (Definition d))
   \<and> (itemId \<notin> dom (items (getMaterialDefinitions this))
        \<and> itemId \<notin> set object_prototype_keys \<longrightarrow>
       getGameMaterialFromItemId ToString this (JStr itemId) = None)
   \<and> (itemId \<notin> dom (items (getMaterialDefinitions this))
        \<and> itemId \<in> set object_prototype_keys \<longrightarrow>
       getGameMaterialFromItemId ToString this (JStr itemId) = Some (Inherited itemId))"
  by (auto simp: getGameMaterialFromItemId_def items_get_def toPropertyKey_def
      split: option.splits)

text \<open>
  C6. For an item id absent from the catalog the lookup should give the not-found
  value. This evaluates it at the id \<^verbatim>\<open>toString\<close>, which the sample catalog does not
  have: the result is not the not-found value but the member that every plain object
  inherits under that name.
\<close>

theorem getGameMaterialFromItemId_inherited:
  "items (getMaterialDefinitions sample_session) ''toString'' = None
   \<and> getGameMaterialFromItemId sample_ToString sample_session (JStr ''toString'')
       = Some (Inherited ''toString'')
   \<and> getGameMaterialFromItemId sample_ToString sample_session (JStr ''4242'') = None
   \<and> getGameMaterialFromItemId sample_ToString sample_session (JStr ''1001'')
       = Some (Definition steel_plate)"
  by (simp add: getGameMaterialFromItemId_def items_get_def toPropertyKey_def
      getMaterialDefinitions_def sample_session_def sample_catalog_def
      object_prototype_keys_def)

lemma pairs_as_list:
  "map the (filter (\<lambda>pair. pair \<noteq> None)
      (map (\<lambda>m. case r m of Some g \<Rightarrow> Some \<lparr>material = m, gameMaterial = g\<rparr> | None \<Rightarrow> None) ms))
   = map (\<lambda>m. \<lparr>material = m, gameMaterial = the (r m)\<rparr>) (filter (\<lambda>m. r m \<noteq> None) ms)"
  by (induction ms) (auto split: option.splits)

text \<open>
  The materials of the returned pairs are the document's materials for which the
  lookup gives something, in the document's order; each pair carries what the lookup
  gave for its material.
\<close>

lemma getGltfMaterialsWithGameMaterials_order:
  "map material (getGltfMaterialsWithGameMaterials ToString this) =
     filter (\<lambda>m. getGameMaterialFromGltfMaterial ToString this m \<noteq> None)
       (listMaterials (gltfDocument this))
   \<and> map (\<lambda>pair. Some (gameMaterial pair)) (getGltfMaterialsWithGameMaterials ToString this) =
     map (\<lambda>pair. getGameMaterialFromGltfMaterial ToString this (material pair))
       (getGltfMaterialsWithGameMaterials ToString this)
   \<and> subseq (map material (getGltfMaterialsWithGameMaterials ToString this))
       (listMaterials (gltfDocument this))"
  unfolding getGltfMaterialsWithGameMaterials_def pairs_as_list
  by (auto simp: comp_def)

text \<open>
  C7. The pairs should be those of the materials that resolve to a game material, each
  with its definition. This evaluates the function on a document whose second material
  is named \<^verbatim>\<open>constructor\<close>, with a catalog that has no such item: the material is not
  left out, and its pair carries the inherited member of that name, which is no
  definition of the catalog.
\<close>

theorem getGltfMaterialsWithGameMaterials_inherited:
  "items (getMaterialDefinitions constructor_session) ''constructor'' = None
   \<and> getGltfMaterialsWithGameMaterials sample_ToString constructor_session =
     [\<lparr>material = stamped_material, gameMaterial = Definition steel_plate\<rparr>,
      \<lparr>material = constructor_material, gameMaterial = Inherited ''constructor''\<rparr>]
   \<and> getGltfMaterialsWithGameMaterials sample_ToString sample_session =
     [\<lparr>material = stamped_material, gameMaterial = Definition steel_plate\<rparr>]"
  by (simp add: getGltfMaterialsWithGameMaterials_def getGameMaterialFromGltfMaterial_def
      getGameMaterialFromItemId_def getGameItemIdFromGltfMaterial_def getMaterialDefinitions_def
      items_get_def toPropertyKey_def js_or_val_def js_get_def js_of_name_def truthy_def
      listMaterials_def getExtras_def getName_def object_prototype_keys_def
      constructor_session_def sample_session_def sample_document_def sample_catalog_def
      stamped_material_def unknown_material_def constructor_material_def)

section \<open>The installation directory\<close>

text \<open>
  C9. When the directory has no \<^verbatim>\<open>Game/data\<close> below it, setting it throws, and the
  session is as it was, its installation path included. When it has, the call returns
  the session with the directory stored.
\<close>

theorem setGameInstallationDirectory_checked:
  "(\<not> fileExists h (path_join h [directory, ''Game'', ''data'']) \<longrightarrow>
      setGameInstallationDirectory h directory this =
        Threw (Error (''Invalid game directory: '' @ directory)) this
      \<and> gameInstallationPath (state_of (setGameInstallationDirectory h directory this)) =
        gameInstallationPath this)
   \<and> (fileExists h (path_join h [directory, ''Game'', ''data'']) \<longrightarrow>
      setGameInstallationDirectory h directory this =
        Returned (this\<lparr>gameInstallationPath := Some directory\<rparr>)
      \<and> gameInstallationPath (state_of (setGameInstallationDirectory h directory this)) =
        Some directory)"
  by (simp add: setGameInstallationDirectory_def)

theorem setGameInstallationDirectory_checked_witness:
  "setGameInstallationDirectory sample_host ''/tmp''
       (sample_session\<lparr>gameInstallationPath := Some ''/opt/du''\<rparr>) =
     Threw (Error ''Invalid game directory: /tmp'')
       (sample_session\<lparr>gameInstallationPath := Some ''/opt/du''\<rparr>)
   \<and> setGameInstallationDirectory sample_host ''/opt/du'' sample_session =
     Returned (sample_session\<lparr>gameInstallationPath := Some ''/opt/du''\<rparr>)"
  using setGameInstallationDirectory_checked
      [of sample_host "''/tmp''" "sample_session\<lparr>gameInstallationPath := Some ''/opt/du''\<rparr>"]
    setGameInstallationDirectory_checked [of sample_host "''/opt/du''" sample_session]
  by (simp add: sample_host_def)

text \<open>
  C10. The data directory is absent exactly when no installation directory is set, and
  is otherwise the stored path joined with \<^verbatim>\<open>Game\<close> and \<^verbatim>\<open>data\<close>. The function
  only reads the session.
\<close>

theorem getDataDirectory_iff:
  "(getDataDirectory h this = None \<longleftrightarrow> \<not> isGameInstallationDirectorySet this)
   \<and> (isGameInstallationDirectorySet this \<longrightarrow>
        (\<exists>p. gameInstallationPath this = Some p
           \<and> getDataDirectory h this = Some (path_join h [p, ''Game'', ''data''])))"
  by (auto simp: getDataDirectory_def isGameInstallationDirectorySet_def split: option.splits)

theorem getDataDirectory_iff_witness:
  "getDataDirectory sample_host sample_session = None
   \<and> getDataDirectory sample_host (sample_session\<lparr>gameInstallationPath := Some ''/opt/du''\<rparr>) =
       Some ''/opt/du/Game/data''"
  using getDataDirectory_iff [of sample_host sample_session]
    getDataDirectory_iff [of sample_host "sample_session\<lparr>gameInstallationPath := Some ''/opt/du''\<rparr>"]
  by (simp add: isGameInstallationDirectorySet_def truthy_def sample_session_def sample_host_def)

section \<open>The constructor's pass over the materials\<close>

lemma preprocessMaterial_cong:
  "materialDefinitions a = materialDefinitions b \<Longrightarrow>
     preprocessMaterial ToString a m = preprocessMaterial ToString b m"
  by (simp add: preprocessMaterial_def getGameMaterialFromItemId_def getMaterialDefinitions_def
      cong: if_cong)

lemma preprocessMaterial_resolved:
  assumes "js_truthy (getGameItemIdFromGltfMaterial m)"
    and "getGameMaterialFromItemId ToString this (getGameItemIdFromGltfMaterial m) = Some g"
  shows "preprocessMaterial ToString this m =
     m\<lparr>name := title_of g,
       extras := AList.update ''item_id'' (getGameItemIdFromGltfMaterial m) (extras m)\<rparr>"
  using assms by (simp add: preprocessMaterial_def getExtras_def Let_def)

lemma preprocessMaterial_unresolved:
  assumes "\<not> js_truthy (getGameItemIdFromGltfMaterial m)
     \<or> getGameMaterialFromItemId ToString this (getGameItemIdFromGltfMaterial m) = None"
  shows "preprocessMaterial ToString this m = m"
  using assms by (auto simp: preprocessMaterial_def Let_def)

lemma itemId_after_stamp:
  "js_truthy v \<Longrightarrow>
     getGameItemIdFromGltfMaterial (m\<lparr>name := n, extras := AList.update ''item_id'' v (extras m)\<rparr>) = v"
  by (simp add: getGameItemIdFromGltfMaterial_def getExtras_def js_or_val_def js_get_def
      update_conv')

lemma preprocessMaterial_idem:
  "preprocessMaterial ToString this (preprocessMaterial ToString this m) = preprocessMaterial ToString this m"
proof (cases "\<not> js_truthy (getGameItemIdFromGltfMaterial m)
     \<or> getGameMaterialFromItemId ToString this (getGameItemIdFromGltfMaterial m) = None")
  case True
  then show ?thesis by (simp add: preprocessMaterial_unresolved)
next
  case False
  then obtain g where ne: "js_truthy (getGameItemIdFromGltfMaterial m)"
    and g: "getGameMaterialFromItemId ToString this (getGameItemIdFromGltfMaterial m) = Some g"
    by auto
  let ?v = "getGameItemIdFromGltfMaterial m"
  let ?m' = "m\<lparr>name := title_of g, extras := AList.update ''item_id'' ?v (extras m)\<rparr>"
  have first: "preprocessMaterial ToString this m = ?m'"
    using preprocessMaterial_resolved [OF ne g] .
  have id': "getGameItemIdFromGltfMaterial ?m' = ?v"
    using itemId_after_stamp [OF ne] .
  have "preprocessMaterial ToString this ?m' =
     ?m'\<lparr>name := title_of g, extras := AList.update ''item_id'' ?v (extras ?m')\<rparr>"
    using preprocessMaterial_resolved [of ?m' ToString this g] ne g id' by simp
  also have "\<dots> = ?m'" by simp
  finally show ?thesis using first by simp
qed

lemma preprocessMaterial_catalog:
  "preprocessMaterial ToString this = preprocess_with ToString (materialDefinitions this)"
  unfolding preprocess_with_def
  by (rule ext, rule preprocessMaterial_cong) simp

lemma preprocess_with_idem:
  "preprocess_with ToString defs (preprocess_with ToString defs m) = preprocess_with ToString defs m"
  unfolding preprocess_with_def by (rule preprocessMaterial_idem)

lemma DuMeshTransformer_new_Returned:
  "\<exists>p. DuMeshTransformer_new ToString h doc defs =
     Returned \<lparr>pendingCommands = [], gameInstallationPath = p,
       gltfDocument = doc\<lparr>materials := map (preprocess_with ToString defs) (materials doc)\<rparr>,
       materialDefinitions = defs\<rparr>"
  by (simp add: DuMeshTransformer_new_def Let_def setGameInstallationDirectory_def
        listMaterials_def preprocessMaterial_catalog)

text \<open>
  C4. The constructor returns; constructing again from the document it left, with the
  same catalog (on any host), returns too and leaves that document as it is: every material keeps
  its name and its extras.
\<close>

theorem normalization_idempotent:
  "\<exists>this this'. (DuMeshTransformer_new ToString h doc defs :: 'f completion) = Returned this
      \<and> (DuMeshTransformer_new ToString h' (gltfDocument this) defs :: 'f completion) = Returned this'
      \<and> gltfDocument this' = gltfDocument this"
proof -
  let ?doc' = "doc\<lparr>materials := map (preprocess_with ToString defs) (materials doc)\<rparr>"
  obtain p where 1: "(DuMeshTransformer_new ToString h doc defs :: 'f completion) =
     Returned \<lparr>pendingCommands = [], gameInstallationPath = p,
       gltfDocument = ?doc', materialDefinitions = defs\<rparr>"
    using DuMeshTransformer_new_Returned by blast
  obtain p' where 2: "(DuMeshTransformer_new ToString h' ?doc' defs :: 'f completion) =
     Returned \<lparr>pendingCommands = [], gameInstallationPath = p',
       gltfDocument = ?doc'\<lparr>materials := map (preprocess_with ToString defs) (materials ?doc')\<rparr>,
       materialDefinitions = defs\<rparr>"
    using DuMeshTransformer_new_Returned by blast
  have "?doc'\<lparr>materials := map (preprocess_with ToString defs) (materials ?doc')\<rparr> = ?doc'"
    by (simp add: preprocess_with_idem comp_def)
  with 1 2 show ?thesis by simp
qed

text \<open>
  C8, as stated, fails: a material with the empty name and no \<^verbatim>\<open>item_id\<close> has the
  empty item id, which resolves in a catalog that has an entry under the empty key;
  the constructor's guard on the item id skips it all the same, so its name is not set
  to the title and no \<^verbatim>\<open>item_id\<close> is written.
\<close>

theorem constructor_skips_empty_id_counterexample:
  "getGameMaterialFromGltfMaterial sample_ToString
      (state_of (DuMeshTransformer_new sample_ToString sample_host nameless_document
         blank_key_catalog :: nat completion)) nameless_material
     = Some (Definition steel_plate)
   \<and> listMaterials (gltfDocument
        (state_of (DuMeshTransformer_new sample_ToString sample_host nameless_document
           blank_key_catalog :: nat completion))) = [nameless_material]
   \<and> getName nameless_material \<noteq> Some (title steel_plate)
   \<and> map_of (getExtras nameless_material) ''item_id'' = None"
  by (simp add: DuMeshTransformer_new_def Let_def sample_host_def nameless_document_def
      blank_key_catalog_def nameless_material_def steel_plate_def listMaterials_def
      preprocessMaterial_def getGameMaterialFromGltfMaterial_def getGameMaterialFromItemId_def
      getGameItemIdFromGltfMaterial_def getMaterialDefinitions_def getExtras_def getName_def
      items_get_def toPropertyKey_def js_or_val_def js_get_def js_of_name_def truthy_def)

text \<open>
  C8, amended by the guard alone. The constructor returns a session over the same
  catalog with as many materials as the document had. A material whose item id is not
  empty (is truthy) and that has a resolvable game material, a definition of the
  catalog, gets that definition's title as its name and the resolved id as its
  \<^verbatim>\<open>item_id\<close> extra, every other extra reading as before. A material whose item id
  is empty, or that has no resolvable game material (the lookup gives the not-found
  value), is left exactly as it was.
\<close>

theorem constructor_stamps_materials:
  "\<exists>this. (DuMeshTransformer_new ToString h doc defs :: 'f completion) = Returned this
     \<and> getMaterialDefinitions this = defs
     \<and> length (listMaterials (gltfDocument this)) = length (listMaterials doc)
     \<and> (\<forall>i<length (listMaterials doc). \<forall>d.
          js_truthy (getGameItemIdFromGltfMaterial (listMaterials doc ! i))
          \<and> getGameMaterialFromGltfMaterial ToString this (listMaterials doc ! i)
               = Some (Definition d) \<longrightarrow>
            getName (listMaterials (gltfDocument this) ! i) = Some (title d)
            \<and> map_of (getExtras (listMaterials (gltfDocument this) ! i)) ''item_id'' =
                Some (getGameItemIdFromGltfMaterial (listMaterials doc ! i))
            \<and> (\<forall>k. k \<noteq> ''item_id'' \<longrightarrow>
                  map_of (getExtras (listMaterials (gltfDocument this) ! i)) k =
                  map_of (getExtras (listMaterials doc ! i)) k))
     \<and> (\<forall>i<length (listMaterials doc).
          \<not> js_truthy (getGameItemIdFromGltfMaterial (listMaterials doc ! i))
          \<or> getGameMaterialFromGltfMaterial ToString this (listMaterials doc ! i) = None \<longrightarrow>
            listMaterials (gltfDocument this) ! i = listMaterials doc ! i)"
proof -
  let ?seed = "\<lparr>pendingCommands = [], gameInstallationPath = None,
       gltfDocument = \<lparr>materials = []\<rparr>, materialDefinitions = defs\<rparr> :: unit DuMeshTransformer"
  obtain p where new: "(DuMeshTransformer_new ToString h doc defs :: 'f completion) =
     Returned \<lparr>pendingCommands = [], gameInstallationPath = p,
       gltfDocument = doc\<lparr>materials := map (preprocess_with ToString defs) (materials doc)\<rparr>,
       materialDefinitions = defs\<rparr>" (is "_ = Returned ?t")
    using DuMeshTransformer_new_Returned by blast
  have lookup: "getGameMaterialFromGltfMaterial ToString ?t m =
      getGameMaterialFromItemId ToString ?seed (getGameItemIdFromGltfMaterial m)" for m
    by (simp add: getGameMaterialFromGltfMaterial_def getGameMaterialFromItemId_def
        getMaterialDefinitions_def)
  have hit: "getName (preprocess_with ToString defs m) = Some (title d)
      \<and> map_of (getExtras (preprocess_with ToString defs m)) ''item_id'' =
          Some (getGameItemIdFromGltfMaterial m)
      \<and> (\<forall>k. k \<noteq> ''item_id'' \<longrightarrow>
            map_of (getExtras (preprocess_with ToString defs m)) k = map_of (getExtras m) k)"
    if "js_truthy (getGameItemIdFromGltfMaterial m)"
      and "getGameMaterialFromItemId ToString ?seed (getGameItemIdFromGltfMaterial m)
             = Some (Definition d)" for m d
    using preprocessMaterial_resolved [of m ToString ?seed "Definition d"] that
    by (simp add: preprocess_with_def getName_def getExtras_def update_conv' title_of_def)
  have miss: "preprocess_with ToString defs m = m"
    if "\<not> js_truthy (getGameItemIdFromGltfMaterial m)
      \<or> getGameMaterialFromItemId ToString ?seed (getGameItemIdFromGltfMaterial m) = None"
    for m
    using preprocessMaterial_unresolved [of m ToString ?seed] that
    by (simp add: preprocess_with_def)
  have "getMaterialDefinitions ?t = defs"
    by (simp add: getMaterialDefinitions_def)
  moreover have "length (listMaterials (gltfDocument ?t)) = length (listMaterials doc)"
    by (simp add: listMaterials_def)
  moreover have "\<forall>i<length (listMaterials doc). \<forall>d.
          js_truthy (getGameItemIdFromGltfMaterial (listMaterials doc ! i))
          \<and> getGameMaterialFromGltfMaterial ToString ?t (listMaterials doc ! i)
               = Some (Definition d) \<longrightarrow>
            getName (listMaterials (gltfDocument ?t) ! i) = Some (title d)
            \<and> map_of (getExtras (listMaterials (gltfDocument ?t) ! i)) ''item_id'' =
                Some (getGameItemIdFromGltfMaterial (listMaterials doc ! i))
            \<and> (\<forall>k. k \<noteq> ''item_id'' \<longrightarrow>
                  map_of (getExtras (listMaterials (gltfDocument ?t) ! i)) k =
                  map_of (getExtras (listMaterials doc ! i)) k)"
    using hit by (simp add: lookup listMaterials_def)
  moreover have "\<forall>i<length (listMaterials doc).
          \<not> js_truthy (getGameItemIdFromGltfMaterial (listMaterials doc ! i))
          \<or> getGameMaterialFromGltfMaterial ToString ?t (listMaterials doc ! i) = None \<longrightarrow>
            listMaterials (gltfDocument ?t) ! i = listMaterials doc ! i"
    using miss by (simp add: lookup listMaterials_def)
  ultimately show ?thesis using new by blast
qed

theorem constructor_stamps_materials_witness:
  "getName (listMaterials (gltfDocument (state_of
      (DuMeshTransformer_new sample_ToString sample_host sample_document sample_catalog
         :: nat completion))) ! 0)
     = Some ''Steel Plate''
   \<and> map_of (getExtras (listMaterials (gltfDocument (state_of
      (DuMeshTransformer_new sample_ToString sample_host sample_document sample_catalog
         :: nat completion))) ! 0))
       ''item_id'' = Some (JStr ''1001'')
   \<and> map_of (getExtras (listMaterials (gltfDocument (state_of
      (DuMeshTransformer_new sample_ToString sample_host sample_document sample_catalog
         :: nat completion))) ! 0))
       ''note'' = Some (JStr ''keep'')
   \<and> listMaterials (gltfDocument (state_of
      (DuMeshTransformer_new sample_ToString sample_host sample_document sample_catalog
         :: nat completion))) ! 1
     = unknown_material"
proof -
  obtain this where new: "(DuMeshTransformer_new sample_ToString sample_host sample_document
        sample_catalog :: nat completion) = Returned this"
    and defs: "getMaterialDefinitions this = sample_catalog"
    and hit: "\<forall>i<length (listMaterials sample_document). \<forall>d.
          js_truthy (getGameItemIdFromGltfMaterial (listMaterials sample_document ! i))
          \<and> getGameMaterialFromGltfMaterial sample_ToString this
               (listMaterials sample_document ! i) = Some (Definition d) \<longrightarrow>
            getName (listMaterials (gltfDocument this) ! i) = Some (title d)
            \<and> map_of (getExtras (listMaterials (gltfDocument this) ! i)) ''item_id'' =
                Some (getGameItemIdFromGltfMaterial (listMaterials sample_document ! i))
            \<and> (\<forall>k. k \<noteq> ''item_id'' \<longrightarrow>
                  map_of (getExtras (listMaterials (gltfDocument this) ! i)) k =
                  map_of (getExtras (listMaterials sample_document ! i)) k)"
    and miss: "\<forall>i<length (listMaterials sample_document).
          \<not> js_truthy (getGameItemIdFromGltfMaterial (listMaterials sample_document ! i))
          \<or> getGameMaterialFromGltfMaterial sample_ToString this
               (listMaterials sample_document ! i) = None \<longrightarrow>
            listMaterials (gltfDocument this) ! i = listMaterials sample_document ! i"
    using constructor_stamps_materials
      [of sample_ToString sample_host sample_document sample_catalog]
    by blast
  have ids: "getGameItemIdFromGltfMaterial stamped_material = JStr ''1001''"
    "getGameItemIdFromGltfMaterial unknown_material = JStr ''Unknown''"
    by (simp_all add: getGameItemIdFromGltfMaterial_def getExtras_def getName_def js_or_val_def
        js_get_def js_of_name_def truthy_def stamped_material_def unknown_material_def)
  have found: "getGameMaterialFromGltfMaterial sample_ToString this stamped_material
      = Some (Definition steel_plate)"
    and lost: "getGameMaterialFromGltfMaterial sample_ToString this unknown_material = None"
    using defs ids
    by (simp_all add: getGameMaterialFromGltfMaterial_def getGameMaterialFromItemId_def
        items_get_def toPropertyKey_def sample_catalog_def object_prototype_keys_def)
  from hit [rule_format, of 0 steel_plate] ids found
  have first: "getName (listMaterials (gltfDocument this) ! 0) = Some ''Steel Plate''
      \<and> map_of (getExtras (listMaterials (gltfDocument this) ! 0)) ''item_id''
          = Some (JStr ''1001'')
      \<and> map_of (getExtras (listMaterials (gltfDocument this) ! 0)) ''note''
          = Some (JStr ''keep'')"
    by (simp add: listMaterials_def sample_document_def steel_plate_def getExtras_def
        stamped_material_def truthy_def)
  from miss [rule_format, of 1] ids lost
  have second: "listMaterials (gltfDocument this) ! 1 = unknown_material"
    by (simp add: listMaterials_def sample_document_def)
  from first second show ?thesis by (simp add: new)
qed

end
